theory Spec2Isabelle
  imports Complex_Main "HOL-Library.Multiset"
begin

section \<open>JavaScript values used by the components\<close>

subsection \<open>Numbers\<close>

text \<open>
  A JavaScript \<^verbatim>\<open>number\<close>: \<^verbatim>\<open>NaN\<close>, the two infinities, or a finite value.
  Finite doubles are a subset of the reals, so a statement proved for every
  \<open>Finite x\<close> holds for every finite double; \<^verbatim>\<open>-0\<close> and \<^verbatim>\<open>+0\<close> compare alike
  and are both \<open>Finite 0\<close>.
\<close>

datatype number = NaN | Finite real | PosInfinity | NegInfinity

text \<open>The relational operator \<^verbatim>\<open>a <= b\<close>: false as soon as one side is \<^verbatim>\<open>NaN\<close>.\<close>

fun js_le :: "number \<Rightarrow> number \<Rightarrow> bool" where
  "js_le NaN _ = False"
| "js_le _ NaN = False"
| "js_le NegInfinity _ = True"
| "js_le _ PosInfinity = True"
| "js_le PosInfinity _ = False"
| "js_le _ NegInfinity = False"
| "js_le (Finite x) (Finite y) = (x \<le> y)"


text \<open>
  The conversion of a mathematical integer to a \<^verbatim>\<open>number\<close>: integers below
  \<open>2^53\<close> in magnitude are doubles; a larger one is rounded to 53 significant
  bits, ties to even, and becomes an infinity from \<open>2^1024\<close> on.
\<close>

fun bit_length :: "nat \<Rightarrow> nat" where
  "bit_length n = (if n = 0 then 0 else Suc (bit_length (n div 2)))"

declare bit_length.simps [simp del]

definition round_to_double :: "nat \<Rightarrow> nat" where
  "round_to_double a =
     (if a < 2 ^ 53 then a
      else let e = bit_length a - 53;
               q = a div 2 ^ e;
               r = a mod 2 ^ e;
               half = 2 ^ (e - 1);
               q' = (if half < r \<or> (r = half \<and> odd q) then q + 1 else q)
           in q' * 2 ^ e)"

definition number_of_int :: "int \<Rightarrow> number" where
  "number_of_int n =
     (let v = round_to_double (nat \<bar>n\<bar>)
      in if 2 ^ 1024 \<le> v then (if n < 0 then NegInfinity else PosInfinity)
         else Finite (of_int (if n < 0 then - int v else int v)))"

subsection \<open>parseInt\<close>

text \<open>
  \<^verbatim>\<open>parseInt(value)\<close> with no radix: leading white space is dropped, then an
  optional sign, then an optional \<^verbatim>\<open>0x\<close>/\<^verbatim>\<open>0X\<close> prefix that selects radix 16;
  the longest run of digits of the radix is read and everything after it is
  ignored. No digit at all gives \<^verbatim>\<open>NaN\<close>.

  A string is the sequence of the bytes of its UTF-8 encoding. The white space
  of the language is the six ASCII characters U+0009 to U+000D and U+0020,
  the two-byte U+00A0, and the three-byte U+1680, U+2000 to U+200A, U+2028,
  U+2029, U+202F, U+205F, U+3000 and U+FEFF.
\<close>

definition is_white_space :: "char \<Rightarrow> bool" where
  "is_white_space c = (c \<in> set [CHR 0x09, CHR 0x0A, CHR 0x0B, CHR 0x0C, CHR 0x0D, CHR 0x20])"

definition is_white_space2 :: "char \<Rightarrow> char \<Rightarrow> bool" where
  "is_white_space2 a b = (a = CHR 0xC2 \<and> b = CHR 0xA0)"

definition is_white_space3 :: "char \<Rightarrow> char \<Rightarrow> char \<Rightarrow> bool" where
  "is_white_space3 a b c =
     ((a = CHR 0xE1 \<and> b = CHR 0x9A \<and> c = CHR 0x80)
      \<or> (a = CHR 0xE2 \<and> b = CHR 0x80
          \<and> c \<in> set [CHR 0x80, CHR 0x81, CHR 0x82, CHR 0x83, CHR 0x84, CHR 0x85, CHR 0x86,
                       CHR 0x87, CHR 0x88, CHR 0x89, CHR 0x8A, CHR 0xA8, CHR 0xA9, CHR 0xAF])
      \<or> (a = CHR 0xE2 \<and> b = CHR 0x81 \<and> c = CHR 0x9F)
      \<or> (a = CHR 0xE3 \<and> b = CHR 0x80 \<and> c = CHR 0x80)
      \<or> (a = CHR 0xEF \<and> b = CHR 0xBB \<and> c = CHR 0xBF))"

fun trimStart :: "string \<Rightarrow> string" where
  "trimStart (a # b # c # s) =
     (if is_white_space a then trimStart (b # c # s)
      else if is_white_space2 a b then trimStart (c # s)
      else if is_white_space3 a b c then trimStart s
      else a # b # c # s)"
| "trimStart [a, b] =
     (if is_white_space a then trimStart [b]
      else if is_white_space2 a b then []
      else [a, b])"
| "trimStart [a] = (if is_white_space a then [] else [a])"
| "trimStart [] = []"

definition digit_of :: "char \<Rightarrow> nat option" where
  "digit_of c =
     (let n = (of_char c :: nat)
      in if 48 \<le> n \<and> n \<le> 57 then Some (n - 48)
         else if 97 \<le> n \<and> n \<le> 122 then Some (n - 87)
         else if 65 \<le> n \<and> n \<le> 90 then Some (n - 55)
         else None)"

definition radix_digit :: "nat \<Rightarrow> char \<Rightarrow> nat option" where
  "radix_digit R c =
     (case digit_of c of
        None \<Rightarrow> None
      | Some d \<Rightarrow> if d < R then Some d else None)"

text \<open>The digits read so far are accumulated in \<open>acc\<close>; \<open>None\<close> until a digit is seen.\<close>

fun read_digits :: "nat \<Rightarrow> nat option \<Rightarrow> string \<Rightarrow> nat option" where
  "read_digits R acc [] = acc"
| "read_digits R acc (c # cs) =
     (case radix_digit R c of
        None \<Rightarrow> acc
      | Some d \<Rightarrow> read_digits R (Some ((case acc of None \<Rightarrow> 0 | Some a \<Rightarrow> a) * R + d)) cs)"

definition parseInt :: "string \<Rightarrow> number" where
  "parseInt string =
     (let S = trimStart string;
          negative = (case S of c # _ \<Rightarrow> c = CHR ''-'' | [] \<Rightarrow> False);
          S1 = (case S of c # cs \<Rightarrow> if c = CHR ''+'' \<or> c = CHR ''-'' then cs else S | [] \<Rightarrow> S);
          hex = (case S1 of a # b # _ \<Rightarrow> a = CHR ''0'' \<and> (b = CHR ''x'' \<or> b = CHR ''X'') | _ \<Rightarrow> False);
          R = (if hex then 16 else 10);
          S2 = (if hex then drop 2 S1 else S1)
      in case read_digits R None S2 of
           None \<Rightarrow> NaN
         | Some mathInt \<Rightarrow> number_of_int (if negative then - int mathInt else int mathInt))"

subsection \<open>Numbers as text\<close>

text \<open>
  \<^verbatim>\<open>Date.now()\<close> is an integral number of milliseconds, far below \<open>10^21\<close> in
  magnitude; inside a template literal such a number is written in decimal, with
  a leading minus sign when negative.
\<close>

fun decimal_digits :: "nat \<Rightarrow> string" where
  "decimal_digits n =
     (if n < 10 then [char_of (48 + n)]
      else decimal_digits (n div 10) @ [char_of (48 + n mod 10)])"

declare decimal_digits.simps [simp del]

definition toString :: "int \<Rightarrow> string" where
  "toString n = (if n < 0 then CHR ''-'' # decimal_digits (nat (- n)) else decimal_digits (nat n))"

subsection \<open>Parsed JSON\<close>

text \<open>
  The values \<^verbatim>\<open>JSON.parse\<close> returns. An object is the list of its own
  properties. \<^verbatim>\<open>JSON.parse\<close> itself belongs to the platform: its outcome on
  the text of the uploaded file is an input of the model, either the
  \<^verbatim>\<open>SyntaxError\<close> it throws or the value it returns.
\<close>

datatype json =
    JNull
  | JBoolean bool
  | JNumber number
  | JString string
  | JArray "json list"
  | JObject "(string \<times> json) list"

datatype parse_result = SyntaxError | Parsed json

text \<open>
  The operator \<^verbatim>\<open>key in item\<close>, for a key that is neither an array index,
  \<^verbatim>\<open>length\<close>, nor a property inherited from a prototype (\<^verbatim>\<open>id\<close> and
  \<^verbatim>\<open>question\<close> are neither): true on an object that has the property, false on
  any other object or array, and a \<^verbatim>\<open>TypeError\<close> (here \<open>None\<close>) when the right
  operand is not an object at all, that is \<^verbatim>\<open>null\<close>, a boolean, a number or a
  string.
\<close>

fun js_in :: "string \<Rightarrow> json \<Rightarrow> bool option" where
  "js_in key (JObject props) = Some (key \<in> set (map fst props))"
| "js_in key (JArray _) = Some False"
| "js_in key _ = None"

text \<open>The operator \<^verbatim>\<open>a || b\<close> on strings: the empty string is falsy.\<close>

definition js_or :: "string \<Rightarrow> string \<Rightarrow> string" where
  "js_or a b = (if a = [] then b else a)"

section \<open>The quiz draft (CreateLiveQuiz)\<close>

text \<open>The field \<^verbatim>\<open>id\<close> is \<open>id_field\<close> here, \<open>id\<close> being the identity function of HOL.\<close>

record QuizDetails =
  id_field :: string
  title :: string
  grade :: string
  timeLimit :: number
  targetAudience :: string

text \<open>A question is the parsed array element, passed through as it is.\<close>

type_synonym QuizQuestion = json

text \<open>The component's state, one field per \<^verbatim>\<open>useState\<close>.\<close>

record CreateLiveQuiz =
  quizDetails :: QuizDetails
  quizQuestions :: "QuizQuestion list"
  fileError :: "string option"
  formError :: "string option"
  successMessage :: "string option"
  isSubmitting :: bool

definition initialDetails :: QuizDetails where
  "initialDetails =
     \<lparr>id_field = '''', title = '''', grade = '''', timeLimit = Finite 0,
      targetAudience = ''authenticated''\<rparr>"

definition initialState :: CreateLiveQuiz where
  "initialState =
     \<lparr>quizDetails = initialDetails, quizQuestions = [], fileError = None,
      formError = None, successMessage = None, isSubmitting = False\<rparr>"

subsection \<open>handleFileChange\<close>

definition invalid_format_message :: string where
  "invalid_format_message = ''Invalid JSON format. Expected an array of quiz questions.''"

definition invalid_file_message :: string where
  "invalid_file_message =
     ''Invalid JSON file. Please ensure it'' @ [CHR 0x27] @ ''s well-formed JSON.''"

text \<open>
  The callback of \<^verbatim>\<open>data.every\<close>: \<^verbatim>\<open>'id' in item && 'question' in item\<close>. The
  right conjunct is evaluated only when the left one is true.
\<close>

definition is_question :: "json \<Rightarrow> bool option" where
  "is_question item =
     (case js_in ''id'' item of
        None \<Rightarrow> None
      | Some False \<Rightarrow> Some False
      | Some True \<Rightarrow> js_in ''question'' item)"

text \<open>
  \<^verbatim>\<open>Array.prototype.every\<close>: elements are visited in order, the first one the
  callback rejects ends the visit with false, and an exception of the callback
  (\<open>None\<close>) leaves \<^verbatim>\<open>every\<close> at once.
\<close>

fun every :: "('a \<Rightarrow> bool option) \<Rightarrow> 'a list \<Rightarrow> bool option" where
  "every p [] = Some True"
| "every p (x # xs) =
     (case p x of
        None \<Rightarrow> None
      | Some False \<Rightarrow> Some False
      | Some True \<Rightarrow> every p xs)"

text \<open>
  The condition of the \<^verbatim>\<open>if\<close> in \<^verbatim>\<open>reader.onload\<close>; \<open>Some data\<close> is returned
  in place of true so that the branch has the array at hand.
\<close>

fun validated :: "json \<Rightarrow> QuizQuestion list option option" where
  "validated (JArray items) =
     (case every is_question items of
        None \<Rightarrow> None
      | Some True \<Rightarrow> Some (Some items)
      | Some False \<Rightarrow> Some None)"
| "validated _ = Some None"

text \<open>
  \<^verbatim>\<open>reader.onload\<close>: the body of the \<^verbatim>\<open>try\<close>, with the \<^verbatim>\<open>catch\<close> branch taken
  both for the \<^verbatim>\<open>SyntaxError\<close> of \<^verbatim>\<open>JSON.parse\<close> and for a \<^verbatim>\<open>TypeError\<close> raised
  while the elements are inspected.
\<close>

definition reader_onload :: "parse_result \<Rightarrow> CreateLiveQuiz \<Rightarrow> CreateLiveQuiz" where
  "reader_onload result s =
     (let caught = s\<lparr>fileError := Some invalid_file_message, quizQuestions := []\<rparr>
      in case result of
           SyntaxError \<Rightarrow> caught
         | Parsed data \<Rightarrow>
             (case validated data of
                None \<Rightarrow> caught
              | Some (Some questions) \<Rightarrow> s\<lparr>quizQuestions := questions, fileError := None\<rparr>
              | Some None \<Rightarrow> s\<lparr>fileError := Some invalid_format_message, quizQuestions := []\<rparr>))"

text \<open>
  What the file input delivers: no file, a file the reader fails to read (then
  \<^verbatim>\<open>onload\<close> never runs), or a file whose text reached \<^verbatim>\<open>JSON.parse\<close>.
\<close>

datatype upload = NoFile | Unreadable | FileText parse_result

fun handleFileChange :: "upload \<Rightarrow> CreateLiveQuiz \<Rightarrow> CreateLiveQuiz" where
  "handleFileChange NoFile s = s\<lparr>quizQuestions := [], fileError := None\<rparr>"
| "handleFileChange Unreadable s = s"
| "handleFileChange (FileText result) s = reader_onload result s"

subsection \<open>handleDetailsChange\<close>

text \<open>
  The functional update \<^verbatim>\<open>{...prevDetails, [name]: ...}\<close>. The form has the
  inputs \<^verbatim>\<open>title\<close>, \<^verbatim>\<open>grade\<close>, \<^verbatim>\<open>timeLimit\<close> and \<^verbatim>\<open>targetAudience\<close>; a name
  that is no field of \<^verbatim>\<open>QuizDetails\<close> would add a property that nothing reads,
  and leaves the record as it is.
\<close>

definition handleDetailsChange :: "string \<Rightarrow> string \<Rightarrow> CreateLiveQuiz \<Rightarrow> CreateLiveQuiz" where
  "handleDetailsChange name val s =
     (let prevDetails = quizDetails s
      in s\<lparr>quizDetails :=
           (if name = ''timeLimit'' then prevDetails\<lparr>timeLimit := parseInt val\<rparr>
            else if name = ''title'' then prevDetails\<lparr>title := val\<rparr>
            else if name = ''grade'' then prevDetails\<lparr>grade := val\<rparr>
            else if name = ''targetAudience'' then prevDetails\<lparr>targetAudience := val\<rparr>
            else if name = ''id'' then prevDetails\<lparr>id_field := val\<rparr>
            else prevDetails)\<rparr>)"

subsection \<open>handleSubmit\<close>

text \<open>What \<^verbatim>\<open>useAuth()\<close> provides: the signed-in user, if any, and the loading flag.\<close>

record User =
  uid :: string

record Auth =
  currentUser :: "User option"
  authLoading :: bool

text \<open>
  The bundle \<^verbatim>\<open>finalQuizData\<close> handed to \<^verbatim>\<open>saveLiveQuizToFirestore\<close>; its field
  \<^verbatim>\<open>type\<close> is \<open>type_tag\<close> here.
\<close>

record finalQuizData =
  details :: QuizDetails
  questions :: "QuizQuestion list"
  type_tag :: string

text \<open>
  \<^verbatim>\<open>saveLiveQuizToFirestore\<close> is an external service: it resolves with the
  identifier of the stored quiz or rejects with an \<^verbatim>\<open>Error\<close>, of which the
  handler reads the message.
\<close>

datatype js_error = Error (message: string)

type_synonym save_result = "js_error + string"

definition auth_message :: string where
  "auth_message = ''Authentication not loaded or user not logged in.''"

definition details_message :: string where
  "details_message = ''Please fill in all quiz details (Title, Grade, Time Limit).''"

definition questions_message :: string where
  "questions_message = ''Please upload a JSON file with quiz questions.''"

definition newQuizId :: "int \<Rightarrow> string" where
  "newQuizId now = ''quiz_'' @ toString now"

definition success_text :: "string \<Rightarrow> string \<Rightarrow> string" where
  "success_text quiz_title quizId =
     ''Quiz '' @ [CHR 0x22] @ quiz_title @ [CHR 0x22]
       @ '' added/updated successfully with ID: '' @ quizId"

definition failure_text :: "js_error \<Rightarrow> string" where
  "failure_text err = ''Failed to save quiz: '' @ js_or (message err) ''Unknown error''"

text \<open>
  A write that has been issued and not yet settled: the arguments of the call
  and the \<^verbatim>\<open>quizDetails\<close> the suspended handler still holds in its closure.
\<close>

record pending_write =
  write_data :: finalQuizData
  write_uid :: string
  closure_details :: QuizDetails

text \<open>
  The handler up to its \<^verbatim>\<open>await\<close>: either it returns early, or it has called
  the persistence write and is suspended.
\<close>

datatype submit_progress =
    Returned CreateLiveQuiz
  | Awaiting pending_write CreateLiveQuiz

definition handleSubmit_begin :: "Auth \<Rightarrow> int \<Rightarrow> CreateLiveQuiz \<Rightarrow> submit_progress" where
  "handleSubmit_begin auth now s =
     (let s0 = s\<lparr>formError := None, successMessage := None\<rparr>
      in case (if authLoading auth then None else currentUser auth) of
           None \<Rightarrow> Returned (s0\<lparr>formError := Some auth_message\<rparr>)
         | Some user \<Rightarrow>
             if title (quizDetails s) = [] \<or> grade (quizDetails s) = []
                \<or> js_le (timeLimit (quizDetails s)) (Finite 0)
             then Returned (s0\<lparr>formError := Some details_message\<rparr>)
             else if length (quizQuestions s) = 0
             then Returned (s0\<lparr>formError := Some questions_message\<rparr>)
             else Awaiting
                    \<lparr>write_data =
                       \<lparr>details = (quizDetails s)\<lparr>id_field := newQuizId now\<rparr>,
                        questions = quizQuestions s,
                        type_tag = ''live''\<rparr>,
                     write_uid = uid user,
                     closure_details = quizDetails s\<rparr>
                    (s0\<lparr>isSubmitting := True\<rparr>))"

text \<open>
  The rest of the handler, run on the state of the form at the time the write
  settles: the \<^verbatim>\<open>try\<close> branch after the \<^verbatim>\<open>await\<close> or the \<^verbatim>\<open>catch\<close> branch, then
  \<^verbatim>\<open>finally\<close>.
\<close>

definition handleSubmit_resume :: "pending_write \<Rightarrow> save_result \<Rightarrow> CreateLiveQuiz \<Rightarrow> CreateLiveQuiz" where
  "handleSubmit_resume p outcome s =
     (case outcome of
        Inr quizId \<Rightarrow>
          s\<lparr>successMessage := Some (success_text (title (closure_details p)) quizId),
            quizDetails :=
              \<lparr>id_field = '''', title = '''', grade = '''', timeLimit = Finite 0,
               targetAudience = ''authenticated''\<rparr>,
            quizQuestions := [],
            isSubmitting := False\<rparr>
      | Inl err \<Rightarrow>
          s\<lparr>formError := Some (failure_text err),
            isSubmitting := False\<rparr>)"

text \<open>
  One whole run of the handler with nothing happening in between. The second
  component lists the calls made to the persistence write, in order.
\<close>

definition handleSubmit ::
  "(finalQuizData \<Rightarrow> string \<Rightarrow> save_result) \<Rightarrow> Auth \<Rightarrow> int \<Rightarrow> CreateLiveQuiz
     \<Rightarrow> CreateLiveQuiz \<times> (finalQuizData \<times> string) list" where
  "handleSubmit saveLiveQuizToFirestore auth now s =
     (case handleSubmit_begin auth now s of
        Returned s' \<Rightarrow> (s', [])
      | Awaiting p s' \<Rightarrow>
          (handleSubmit_resume p (saveLiveQuizToFirestore (write_data p) (write_uid p)) s',
           [(write_data p, write_uid p)]))"

subsection \<open>The form as a reactive system\<close>

text \<open>The \<^verbatim>\<open>disabled\<close> attribute of the submit button.\<close>

definition submit_disabled :: "Auth \<Rightarrow> CreateLiveQuiz \<Rightarrow> bool" where
  "submit_disabled auth s =
     (isSubmitting s \<or> authLoading auth \<or> currentUser auth = None
      \<or> length (quizQuestions s) = 0 \<or> title (quizDetails s) = []
      \<or> js_le (timeLimit (quizDetails s)) (Finite 0))"

text \<open>
  A mounted form: the component state, the authentication context, the writes
  in flight and the history of all writes issued. Events are handled one at a
  time, each on the state the previous one left. A submit event reaches
  \<^verbatim>\<open>handleSubmit\<close> only while the submit button is enabled; a write settles
  only while it is in flight.
\<close>

record form_instance =
  component :: CreateLiveQuiz
  auth_context :: Auth
  in_flight :: "pending_write list"
  issued :: "(finalQuizData \<times> string) list"

datatype event =
    FileChange upload
  | DetailsChange string string
  | AuthChange Auth
  | Submit int
  | Settle nat save_result

definition mount :: "Auth \<Rightarrow> form_instance" where
  "mount auth = \<lparr>component = initialState, auth_context = auth, in_flight = [], issued = []\<rparr>"

fun dispatch :: "event \<Rightarrow> form_instance \<Rightarrow> form_instance option" where
  "dispatch (FileChange u) f = Some (f\<lparr>component := handleFileChange u (component f)\<rparr>)"
| "dispatch (DetailsChange name val) f =
     Some (f\<lparr>component := handleDetailsChange name val (component f)\<rparr>)"
| "dispatch (AuthChange a) f = Some (f\<lparr>auth_context := a\<rparr>)"
| "dispatch (Submit now) f =
     (if submit_disabled (auth_context f) (component f) then None
      else case handleSubmit_begin (auth_context f) now (component f) of
             Returned s' \<Rightarrow> Some (f\<lparr>component := s'\<rparr>)
           | Awaiting p s' \<Rightarrow>
               Some (f\<lparr>component := s',
                       in_flight := in_flight f @ [p],
                       issued := issued f @ [(write_data p, write_uid p)]\<rparr>))"
| "dispatch (Settle i outcome) f =
     (if i < length (in_flight f)
      then Some (f\<lparr>component := handleSubmit_resume (in_flight f ! i) outcome (component f),
                   in_flight := take i (in_flight f) @ drop (Suc i) (in_flight f)\<rparr>)
      else None)"

fun run :: "event list \<Rightarrow> form_instance \<Rightarrow> form_instance option" where
  "run [] f = Some f"
| "run (e # es) f = (case dispatch e f of None \<Rightarrow> None | Some f' \<Rightarrow> run es f')"

subsection \<open>Constraint validation of the form\<close>

text \<open>
  The form has no \<^verbatim>\<open>noValidate\<close>: when the user activates the submit button the
  browser first validates the controls, and fires the submit event only if all
  of them are valid. The controls are controlled by the state, so what they hold
  is what the state renders to.

  The time-limit input is \<^verbatim>\<open>type="number" required min="1"\<close> with
  \<^verbatim>\<open>value={quizDetails.timeLimit}\<close>. \<^verbatim>\<open>NaN\<close> and the infinities render to text
  that is no number, which leaves the field empty, and \<^verbatim>\<open>required\<close> fails. A
  finite number passes \<^verbatim>\<open>min\<close> when it is at least 1. The browser also wants it
  a whole number of steps away from the minimum; that check could only keep
  more submit events away and is left out.
\<close>

fun timeLimit_input_valid :: "number \<Rightarrow> bool" where
  "timeLimit_input_valid (Finite x) = (1 \<le> x)"
| "timeLimit_input_valid _ = False"

text \<open>
  The title input is \<^verbatim>\<open>required\<close>. The grade select is \<^verbatim>\<open>required\<close> and its first
  option has the empty value: it is valid when one of the other options is
  selected. The target-audience select has no option with an empty value and
  is always valid; the file input is not \<^verbatim>\<open>required\<close>.
\<close>

definition grade_options :: "string list" where
  "grade_options = [''IOE'', ''CEE'', ''10'', ''11'', ''12'', ''None'']"

definition checkValidity :: "CreateLiveQuiz \<Rightarrow> bool" where
  "checkValidity s =
     (title (quizDetails s) \<noteq> []
      \<and> grade (quizDetails s) \<in> set grade_options
      \<and> timeLimit_input_valid (timeLimit (quizDetails s)))"

text \<open>
  The events as a browser delivers them to the mounted form: a submit event
  only from an enabled button and a valid form.
\<close>

fun validated_dispatch :: "event \<Rightarrow> form_instance \<Rightarrow> form_instance option" where
  "validated_dispatch (Submit now) f =
     (if checkValidity (component f) then dispatch (Submit now) f else None)"
| "validated_dispatch e f = dispatch e f"

fun validated_run :: "event list \<Rightarrow> form_instance \<Rightarrow> form_instance option" where
  "validated_run [] f = Some f"
| "validated_run (e # es) f =
     (case validated_dispatch e f of None \<Rightarrow> None | Some f' \<Rightarrow> validated_run es f')"

section \<open>The listing (LiveTest)\<close>

text \<open>
  A stored quiz as the listing reads it. \<open>createdAt\<close> is the creation time in
  milliseconds, the value of \<^verbatim>\<open>createdAt.toMillis()\<close>: a finite number, and the
  difference of two of them has the sign of their exact difference.
\<close>

record LiveQuizData = finalQuizData +
  createdAt :: real

record LiveTest =
  quizzes :: "LiveQuizData list"
  loading :: bool
  error :: "string option"

text \<open>The state the component is mounted with.\<close>

definition initialListing :: LiveTest where
  "initialListing = \<lparr>quizzes = [], loading = True, error = None\<rparr>"

text \<open>
  \<^verbatim>\<open>Array.prototype.sort\<close> with a comparator: a stable sort that puts \<open>a\<close> before
  \<open>b\<close> when \<open>compareFn a b\<close> is negative and keeps their order when it is zero.
\<close>

fun sort_insert :: "('a \<Rightarrow> 'a \<Rightarrow> real) \<Rightarrow> 'a \<Rightarrow> 'a list \<Rightarrow> 'a list" where
  "sort_insert compareFn a [] = [a]"
| "sort_insert compareFn a (b # bs) =
     (if compareFn a b \<le> 0 then a # b # bs else b # sort_insert compareFn a bs)"

fun js_sort :: "('a \<Rightarrow> 'a \<Rightarrow> real) \<Rightarrow> 'a list \<Rightarrow> 'a list" where
  "js_sort compareFn [] = []"
| "js_sort compareFn (a # as) = sort_insert compareFn a (js_sort compareFn as)"

definition by_creation :: "LiveQuizData \<Rightarrow> LiveQuizData \<Rightarrow> real" where
  "by_creation a b = createdAt b - createdAt a"

definition no_tests_message :: string where
  "no_tests_message = ''No active live tests are currently available.''"

definition load_failed_message :: string where
  "load_failed_message = ''Failed to load live tests. Please try again later.''"

text \<open>
  \<^verbatim>\<open>fetchQuizzes\<close>, given how \<^verbatim>\<open>getAllUnarchivedLiveQuizzesFromFirestore\<close>
  settled.
\<close>

definition fetchQuizzes :: "js_error + LiveQuizData list \<Rightarrow> LiveTest \<Rightarrow> LiveTest" where
  "fetchQuizzes outcome s =
     (let s0 = s\<lparr>loading := True, error := None\<rparr>
      in case outcome of
           Inr fetchedQuizzes \<Rightarrow>
             (let sorted_quizzes = js_sort by_creation fetchedQuizzes;
                  s1 = s0\<lparr>quizzes := sorted_quizzes\<rparr>;
                  s2 = (if length sorted_quizzes = 0 then s1\<lparr>error := Some no_tests_message\<rparr>
                        else s1)
              in s2\<lparr>loading := False\<rparr>)
         | Inl err \<Rightarrow> s0\<lparr>error := Some load_failed_message, loading := False\<rparr>)"

text \<open>What the component renders: the chain of early returns before the grid of cards.\<close>

datatype view = Spinner | ErrorBox string | NoTests | Cards "LiveQuizData list"

definition render :: "LiveTest \<Rightarrow> view" where
  "render s =
     (if loading s then Spinner
      else if (case error s of None \<Rightarrow> False | Some msg \<Rightarrow> msg \<noteq> []) \<and> length (quizzes s) = 0
      then ErrorBox (case error s of None \<Rightarrow> [] | Some msg \<Rightarrow> msg)
      else if length (quizzes s) = 0 then NoTests
      else Cards (quizzes s))"

section \<open>Notions used to state the properties\<close>

text \<open>An element possesses a property when it is an object that has it.\<close>

fun possesses :: "string \<Rightarrow> json \<Rightarrow> bool" where
  "possesses key (JObject props) = (key \<in> set (map fst props))"
| "possesses key _ = False"

text \<open>The number a string of decimal digits denotes.\<close>

definition digits_value :: "string \<Rightarrow> nat" where
  "digits_value cs = foldl (\<lambda>acc c. 10 * acc + (of_char c - 48)) 0 cs"



text \<open>The submitting flag is set exactly while one write is in flight.\<close>

definition in_flight_ok :: "form_instance \<Rightarrow> bool" where
  "in_flight_ok f = (length (in_flight f) = (if isSubmitting (component f) then 1 else 0))"

subsection \<open>Sample data\<close>

definition sample_question :: QuizQuestion where
  "sample_question = JObject [(''id'', JString ''q1''), (''question'', JString ''2+2?'')]"

definition sample_user :: User where
  "sample_user = \<lparr>uid = ''u1''\<rparr>"

definition signed_in :: Auth where
  "signed_in = \<lparr>currentUser = Some sample_user, authLoading = False\<rparr>"

definition sample_details :: QuizDetails where
  "sample_details =
     \<lparr>id_field = '''', title = ''Algebra'', grade = ''10'', timeLimit = Finite 10,
      targetAudience = ''all''\<rparr>"

definition sample_draft :: CreateLiveQuiz where
  "sample_draft =
     \<lparr>quizDetails = sample_details, quizQuestions = [sample_question], fileError = None,
      formError = None, successMessage = None, isSubmitting = False\<rparr>"

definition sample_quiz :: "real \<Rightarrow> LiveQuizData" where
  "sample_quiz millis =
     \<lparr>details = sample_details, questions = [sample_question], type_tag = ''live'',
      createdAt = millis\<rparr>"

section \<open>Ingestion of an uploaded file\<close>

lemma is_question_possesses:
  "possesses ''id'' item \<Longrightarrow> possesses ''question'' item \<Longrightarrow> is_question item = Some True"
  by (cases item) (simp_all add: is_question_def)

lemma every_all_true:
  "(\<And>x. x \<in> set xs \<Longrightarrow> p x = Some True) \<Longrightarrow> every p xs = Some True"
  by (induction xs) simp_all

text \<open>
  Claim C3. When the uploaded file parses to an array whose elements are all
  objects with an \<^verbatim>\<open>id\<close> and a \<^verbatim>\<open>question\<close> property, the question sequence
  becomes that array, elements and order unchanged, the file error is cleared
  and nothing else in the state changes.
\<close>

theorem handleFileChange_accepts_question_array:
  assumes "\<forall>item \<in> set items. possesses ''id'' item \<and> possesses ''question'' item"
  shows "handleFileChange (FileText (Parsed (JArray items))) s =
           s\<lparr>quizQuestions := items, fileError := None\<rparr>"
proof -
  have "every is_question items = Some True"
    using assms by (intro every_all_true is_question_possesses) auto
  then show ?thesis
    by (simp add: reader_onload_def)
qed

theorem handleFileChange_accepts_question_array_witness:
  "possesses ''id'' sample_question \<and> possesses ''question'' sample_question
   \<and> quizQuestions (handleFileChange (FileText (Parsed (JArray [sample_question])))
        (initialState\<lparr>fileError := Some invalid_format_message\<rparr>)) = [sample_question]
   \<and> fileError (handleFileChange (FileText (Parsed (JArray [sample_question])))
        (initialState\<lparr>fileError := Some invalid_format_message\<rparr>)) = None"
  using handleFileChange_accepts_question_array
          [where items = "[sample_question]"
             and s = "initialState\<lparr>fileError := Some invalid_format_message\<rparr>"]
  by (simp add: sample_question_def)

text \<open>
  What the handler does with the other uploads: a value that is not an array,
  and an array of objects and arrays one of which lacks \<^verbatim>\<open>id\<close> or \<^verbatim>\<open>question\<close>,
  are reported with the format message; and every upload that sets an error
  also empties the question sequence.
\<close>

lemma reader_onload_not_array:
  assumes "\<And>items. data \<noteq> JArray items"
  shows "reader_onload (Parsed data) s =
           s\<lparr>fileError := Some invalid_format_message, quizQuestions := []\<rparr>"
  using assms by (cases data) (auto simp add: reader_onload_def)

lemma every_rejects:
  assumes "\<forall>x \<in> set xs. p x \<noteq> None" and "\<exists>x \<in> set xs. p x = Some False"
  shows "every p xs = Some False"
  using assms
proof (induction xs)
  case Nil
  then show ?case by simp
next
  case (Cons x xs)
  then show ?case by (cases "p x") (auto split: bool.splits)
qed

lemma is_question_defined:
  assumes "js_in ''id'' item \<noteq> None"
  shows "is_question item \<noteq> None"
  using assms by (cases item) (auto simp add: is_question_def split: bool.splits)

lemma is_question_rejects:
  assumes "js_in ''id'' item \<noteq> None"
    and "\<not> (possesses ''id'' item \<and> possesses ''question'' item)"
  shows "is_question item = Some False"
  using assms by (cases item) (auto simp add: is_question_def split: bool.splits)

lemma reader_onload_element_lacks_property:
  assumes "\<forall>item \<in> set items. js_in ''id'' item \<noteq> None"
    and "\<exists>item \<in> set items. \<not> (possesses ''id'' item \<and> possesses ''question'' item)"
  shows "reader_onload (Parsed (JArray items)) s =
           s\<lparr>fileError := Some invalid_format_message, quizQuestions := []\<rparr>"
proof -
  from assms(2) obtain item where item: "item \<in> set items"
    "\<not> (possesses ''id'' item \<and> possesses ''question'' item)"
    by blast
  with assms(1) have "is_question item = Some False"
    by (intro is_question_rejects) auto
  with item(1) have "\<exists>x \<in> set items. is_question x = Some False"
    by blast
  moreover from assms(1) have "\<forall>x \<in> set items. is_question x \<noteq> None"
    by (simp add: is_question_defined)
  ultimately have "every is_question items = Some False"
    by (intro every_rejects)
  then show ?thesis
    by (simp add: reader_onload_def)
qed

lemma handleFileChange_error_clears_questions:
  assumes "fileError (handleFileChange u s) \<noteq> fileError s"
    and "fileError (handleFileChange u s) \<noteq> None"
  shows "quizQuestions (handleFileChange u s) = []"
  using assms
  by (cases u) (auto simp add: reader_onload_def Let_def split: parse_result.splits option.splits)

text \<open>
  Claim C2. The claim asks for the format error (InvalidShape) whenever an
  element of the array lacks \<^verbatim>\<open>id\<close> or \<^verbatim>\<open>question\<close>. For the well-formed file
  \<^verbatim>\<open>[1]\<close> the handler empties the question sequence but reports the message of
  the \<^verbatim>\<open>catch\<close> branch, the one for text that is not well-formed JSON: the
  operator \<^verbatim>\<open>in\<close> throws on the number and the exception is caught together
  with those of \<^verbatim>\<open>JSON.parse\<close>.
\<close>

theorem reader_onload_primitive_element:
  "\<not> possesses ''id'' (JNumber (Finite 1))
   \<and> fileError (handleFileChange (FileText (Parsed (JArray [JNumber (Finite 1)]))) sample_draft)
       = Some invalid_file_message
   \<and> invalid_file_message \<noteq> invalid_format_message
   \<and> quizQuestions (handleFileChange (FileText (Parsed (JArray [JNumber (Finite 1)]))) sample_draft)
       = []"
  by (simp add: reader_onload_def is_question_def invalid_file_message_def
        invalid_format_message_def)

text \<open>
  Claim C10. Whatever is uploaded, the handler writes only the question sequence
  and the file error: the quiz details, the form error, the success message and
  the submitting flag are those of the state before.
\<close>

theorem handleFileChange_frame:
  "quizDetails (handleFileChange u s) = quizDetails s
   \<and> handleFileChange u s =
       s\<lparr>quizQuestions := quizQuestions (handleFileChange u s),
         fileError := fileError (handleFileChange u s)\<rparr>"
  by (cases u) (auto simp add: reader_onload_def Let_def split: parse_result.splits option.splits)

theorem handleFileChange_frame_witness:
  "quizDetails (handleFileChange (FileText SyntaxError) sample_draft) = sample_details
   \<and> handleFileChange (FileText SyntaxError) sample_draft =
       sample_draft\<lparr>quizQuestions := [], fileError := Some invalid_file_message\<rparr>"
  using handleFileChange_frame [where u = "FileText SyntaxError" and s = sample_draft]
  by (simp add: reader_onload_def sample_draft_def)

section \<open>Submission\<close>

lemma handleSubmit_begin_ready:
  assumes "\<not> authLoading auth" and "currentUser auth = Some user"
    and "title (quizDetails s) \<noteq> []" and "grade (quizDetails s) \<noteq> []"
    and "\<not> js_le (timeLimit (quizDetails s)) (Finite 0)" and "quizQuestions s \<noteq> []"
  shows "handleSubmit_begin auth now s =
           Awaiting
             \<lparr>write_data =
                \<lparr>details = (quizDetails s)\<lparr>id_field := newQuizId now\<rparr>,
                 questions = quizQuestions s, type_tag = ''live''\<rparr>,
              write_uid = uid user, closure_details = quizDetails s\<rparr>
             (s\<lparr>formError := None, successMessage := None, isSubmitting := True\<rparr>)"
  using assms by (simp add: handleSubmit_begin_def)

lemma toString_sample: "toString 1700000000000 = ''1700000000000''"
  by (simp add: toString_def decimal_digits.simps char_of_def bit_Suc_0_iff)

text \<open>
  Claim C1. When authentication is still loading or nobody is signed in, or the
  title or the grade is empty or the time limit is at most zero, or there is no
  question, the handler sets a validation message and makes no call to the
  persistence write. The message is that of the first failing check, in the
  order authentication, details, questions; the rest of the draft is untouched.
\<close>

theorem handleSubmit_rejects_invalid_draft:
  assumes "authLoading auth \<or> currentUser auth = None
           \<or> title (quizDetails s) = [] \<or> grade (quizDetails s) = []
           \<or> js_le (timeLimit (quizDetails s)) (Finite 0)
           \<or> quizQuestions s = []"
  shows "handleSubmit saveLiveQuizToFirestore auth now s =
           (s\<lparr>formError :=
                Some (if authLoading auth \<or> currentUser auth = None then auth_message
                      else if title (quizDetails s) = [] \<or> grade (quizDetails s) = []
                              \<or> js_le (timeLimit (quizDetails s)) (Finite 0)
                      then details_message
                      else questions_message),
              successMessage := None\<rparr>,
            [])"
  using assms
  by (auto simp add: handleSubmit_def handleSubmit_begin_def split: option.splits)

theorem handleSubmit_rejects_invalid_draft_witness:
  "(authLoading signed_in \<or> currentUser signed_in = None
    \<or> title (quizDetails (sample_draft\<lparr>quizQuestions := []\<rparr>)) = []
    \<or> grade (quizDetails (sample_draft\<lparr>quizQuestions := []\<rparr>)) = []
    \<or> js_le (timeLimit (quizDetails (sample_draft\<lparr>quizQuestions := []\<rparr>))) (Finite 0)
    \<or> quizQuestions (sample_draft\<lparr>quizQuestions := []\<rparr>) = [])
   \<and> handleSubmit (\<lambda>data caller. Inr ''doc1'') signed_in 1700000000000
        (sample_draft\<lparr>quizQuestions := []\<rparr>) =
       (sample_draft\<lparr>quizQuestions := [], formError := Some questions_message\<rparr>, [])"
  using handleSubmit_rejects_invalid_draft
          [where auth = signed_in and s = "sample_draft\<lparr>quizQuestions := []\<rparr>"
             and saveLiveQuizToFirestore = "\<lambda>data caller. Inr ''doc1''"
             and now = 1700000000000]
  by (simp add: sample_draft_def sample_details_def signed_in_def)

text \<open>
  Claim C4. When every precondition holds and the persistence write resolves
  with an identifier, the success message quotes the draft's title and ends with
  that identifier, the details are reset to the initial ones, the question
  sequence is emptied, and the submitting flag and the form error are off.
\<close>

theorem handleSubmit_success_resets_draft:
  assumes "\<not> authLoading auth" and "currentUser auth = Some user"
    and "title (quizDetails s) \<noteq> []" and "grade (quizDetails s) \<noteq> []"
    and "\<not> js_le (timeLimit (quizDetails s)) (Finite 0)" and "quizQuestions s \<noteq> []"
    and "saveLiveQuizToFirestore
           \<lparr>details = (quizDetails s)\<lparr>id_field := newQuizId now\<rparr>,
            questions = quizQuestions s, type_tag = ''live''\<rparr>
           (uid user) = Inr quizId"
  shows "fst (handleSubmit saveLiveQuizToFirestore auth now s) =
           s\<lparr>formError := None,
             successMessage :=
               Some (''Quiz '' @ [CHR 0x22] @ title (quizDetails s) @ [CHR 0x22]
                     @ '' added/updated successfully with ID: '' @ quizId),
             quizDetails :=
               \<lparr>id_field = '''', title = '''', grade = '''', timeLimit = Finite 0,
                targetAudience = ''authenticated''\<rparr>,
             quizQuestions := [],
             isSubmitting := False\<rparr>"
  using assms(7)
  by (simp add: handleSubmit_def handleSubmit_begin_ready [OF assms(1-6)]
        handleSubmit_resume_def success_text_def)

theorem handleSubmit_success_resets_draft_witness:
  "\<not> authLoading signed_in \<and> currentUser signed_in = Some sample_user
   \<and> title (quizDetails sample_draft) \<noteq> [] \<and> grade (quizDetails sample_draft) \<noteq> []
   \<and> \<not> js_le (timeLimit (quizDetails sample_draft)) (Finite 0)
   \<and> quizQuestions sample_draft \<noteq> []
   \<and> fst (handleSubmit (\<lambda>data caller. Inr (id_field (details data))) signed_in 1700000000000
            sample_draft) =
       initialState\<lparr>successMessage :=
         Some (''Quiz '' @ [CHR 0x22] @ ''Algebra'' @ [CHR 0x22]
               @ '' added/updated successfully with ID: quiz_1700000000000'')\<rparr>"
  using handleSubmit_success_resets_draft
          [where auth = signed_in and user = sample_user and s = sample_draft
             and saveLiveQuizToFirestore = "\<lambda>data caller. Inr (id_field (details data))"
             and now = 1700000000000 and quizId = "''quiz_1700000000000''"]
  by (simp add: sample_draft_def sample_details_def signed_in_def sample_user_def
        toString_sample newQuizId_def initialState_def initialDetails_def)

text \<open>
  Claim C5. When every precondition holds and the persistence write rejects,
  the form error is \<^verbatim>\<open>Failed to save quiz: \<close> followed by the message of the
  error (by \<^verbatim>\<open>Unknown error\<close> when that message is empty), the submitting flag
  is off, and the quiz details and the question sequence are those of the draft
  before the attempt.
\<close>

theorem handleSubmit_failure_keeps_draft:
  assumes "\<not> authLoading auth" and "currentUser auth = Some user"
    and "title (quizDetails s) \<noteq> []" and "grade (quizDetails s) \<noteq> []"
    and "\<not> js_le (timeLimit (quizDetails s)) (Finite 0)" and "quizQuestions s \<noteq> []"
    and "saveLiveQuizToFirestore
           \<lparr>details = (quizDetails s)\<lparr>id_field := newQuizId now\<rparr>,
            questions = quizQuestions s, type_tag = ''live''\<rparr>
           (uid user) = Inl (Error msg)"
  shows "fst (handleSubmit saveLiveQuizToFirestore auth now s) =
           s\<lparr>formError :=
               Some (''Failed to save quiz: '' @ (if msg = [] then ''Unknown error'' else msg)),
             successMessage := None,
             isSubmitting := False\<rparr>
         \<and> quizDetails (fst (handleSubmit saveLiveQuizToFirestore auth now s)) = quizDetails s
         \<and> quizQuestions (fst (handleSubmit saveLiveQuizToFirestore auth now s))
             = quizQuestions s"
  using assms(7)
  by (simp add: handleSubmit_def handleSubmit_begin_ready [OF assms(1-6)]
        handleSubmit_resume_def failure_text_def js_or_def)

theorem handleSubmit_failure_keeps_draft_witness:
  "\<not> authLoading signed_in \<and> currentUser signed_in = Some sample_user
   \<and> title (quizDetails sample_draft) \<noteq> [] \<and> grade (quizDetails sample_draft) \<noteq> []
   \<and> \<not> js_le (timeLimit (quizDetails sample_draft)) (Finite 0)
   \<and> quizQuestions sample_draft \<noteq> []
   \<and> fst (handleSubmit (\<lambda>data caller. Inl (Error ''permission-denied'')) signed_in
            1700000000000 sample_draft) =
       sample_draft\<lparr>formError := Some ''Failed to save quiz: permission-denied''\<rparr>"
  using handleSubmit_failure_keeps_draft
          [where auth = signed_in and user = sample_user and s = sample_draft
             and saveLiveQuizToFirestore = "\<lambda>data caller. Inl (Error ''permission-denied'')"
             and now = 1700000000000 and msg = "''permission-denied''"]
  by (simp add: sample_draft_def sample_details_def signed_in_def sample_user_def)

subsection \<open>The generated identifier\<close>

text \<open>
  The identifier is the submission time written out: two submissions at
  different milliseconds get different identifiers.
\<close>

lemma digits_value_snoc: "digits_value (cs @ [c]) = 10 * digits_value cs + (of_char c - 48)"
  by (simp add: digits_value_def)

lemma digits_value_decimal_digits: "digits_value (decimal_digits n) = n"
proof (induction n rule: decimal_digits.induct)
  case (1 n)
  show ?case
  proof (cases "n < 10")
    case True
    then show ?thesis
      by (simp add: decimal_digits.simps [of n] digits_value_def)
  next
    case False
    have "n mod 10 < 10" by simp
    then have "(48 + n mod 10) mod 256 = 48 + n mod 10" by simp
    with False "1.IH" show ?thesis
      by (simp add: decimal_digits.simps [of n] digits_value_snoc)
  qed
qed

lemma decimal_digits_inj: "decimal_digits m = decimal_digits n \<Longrightarrow> m = n"
  by (metis digits_value_decimal_digits)

lemma decimal_digits_no_minus: "CHR ''-'' \<notin> set (decimal_digits n)"
proof (induction n rule: decimal_digits.induct)
  case (1 n)
  have digit: "CHR ''-'' \<noteq> char_of (48 + d)" if "d < 10" for d :: nat
  proof
    assume "CHR ''-'' = char_of (48 + d)"
    then have "of_char (char_of (48 + d)) = (of_char (CHR ''-'') :: nat)" by simp
    with that show False by simp
  qed
  show ?case
  proof (cases "n < 10")
    case True
    then show ?thesis by (simp add: decimal_digits.simps [of n] digit)
  next
    case False
    with "1.IH" show ?thesis by (simp add: decimal_digits.simps [of n] digit)
  qed
qed

lemma toString_inj: "toString a = toString b \<Longrightarrow> a = b"
proof (cases "a < 0"; cases "b < 0")
  assume "toString a = toString b" "a < 0" "b < 0"
  then have "nat (- a) = nat (- b)" by (simp add: toString_def decimal_digits_inj)
  with \<open>a < 0\<close> \<open>b < 0\<close> show ?thesis by simp
next
  assume "toString a = toString b" "a < 0" "\<not> b < 0"
  then have "decimal_digits (nat b) = CHR ''-'' # decimal_digits (nat (- a))"
    by (simp add: toString_def)
  then have "CHR ''-'' \<in> set (decimal_digits (nat b))"
    by simp
  then show ?thesis by (simp add: decimal_digits_no_minus)
next
  assume "toString a = toString b" "\<not> a < 0" "b < 0"
  then have "decimal_digits (nat a) = CHR ''-'' # decimal_digits (nat (- b))"
    by (simp add: toString_def)
  then have "CHR ''-'' \<in> set (decimal_digits (nat a))"
    by simp
  then show ?thesis by (simp add: decimal_digits_no_minus)
next
  assume "toString a = toString b" "\<not> a < 0" "\<not> b < 0"
  then have "nat a = nat b" by (simp add: toString_def decimal_digits_inj)
  with \<open>\<not> a < 0\<close> \<open>\<not> b < 0\<close> show ?thesis by simp
qed

lemma newQuizId_inj: "newQuizId a = newQuizId b \<Longrightarrow> a = b"
  by (simp add: newQuizId_def toString_inj)

lemma handleSubmit_call_id:
  assumes "call \<in> set (snd (handleSubmit saveLiveQuizToFirestore auth now s))"
  shows "id_field (details (fst call)) = newQuizId now"
  using assms
  by (auto simp add: handleSubmit_def handleSubmit_begin_def Let_def split: option.splits if_splits)

lemma toString_sample_next: "toString 1700000000001 = ''1700000000001''"
  by (simp add: toString_def decimal_digits.simps char_of_def bit_Suc_0_iff)

text \<open>
  Claim C6. When every precondition holds, the persistence write is called
  exactly once: with the draft's details carrying the identifier
  \<^verbatim>\<open>quiz_\<close> followed by the submission time in decimal, which is not empty, with
  the draft's questions unchanged and the type \<^verbatim>\<open>live\<close>, and with the uid of
  the signed-in user. The identifier is fresh in that it tells submission times
  apart: no write of a submission made at another time, whatever its draft, its
  user and the service, carries the same identifier. (Two submissions in the
  same millisecond get the same one.)
\<close>

theorem handleSubmit_issues_one_write:
  assumes "\<not> authLoading auth" and "currentUser auth = Some user"
    and "title (quizDetails s) \<noteq> []" and "grade (quizDetails s) \<noteq> []"
    and "\<not> js_le (timeLimit (quizDetails s)) (Finite 0)" and "quizQuestions s \<noteq> []"
  shows "snd (handleSubmit saveLiveQuizToFirestore auth now s) =
           [(\<lparr>details = (quizDetails s)\<lparr>id_field := ''quiz_'' @ toString now\<rparr>,
              questions = quizQuestions s, type_tag = ''live''\<rparr>,
             uid user)]
         \<and> ''quiz_'' @ toString now \<noteq> []
         \<and> (\<forall>now' save' auth' s'. now' \<noteq> now \<longrightarrow>
              (\<forall>call \<in> set (snd (handleSubmit save' auth' now' s')).
                 id_field (details (fst call)) \<noteq> ''quiz_'' @ toString now))"
proof -
  have "id_field (details (fst call)) \<noteq> ''quiz_'' @ toString now"
    if "now' \<noteq> now" and "call \<in> set (snd (handleSubmit save' auth' now' s'))"
    for now' call and save' :: "finalQuizData \<Rightarrow> string \<Rightarrow> save_result" and auth' s'
  proof
    assume "id_field (details (fst call)) = ''quiz_'' @ toString now"
    with handleSubmit_call_id [OF that(2)] have "newQuizId now' = newQuizId now"
      by (simp add: newQuizId_def)
    with that(1) show False
      by (simp add: newQuizId_inj)
  qed
  then show ?thesis
    by (simp add: handleSubmit_def handleSubmit_begin_ready [OF assms] newQuizId_def)
qed

theorem handleSubmit_issues_one_write_witness:
  "\<not> authLoading signed_in \<and> currentUser signed_in = Some sample_user
   \<and> title (quizDetails sample_draft) \<noteq> [] \<and> grade (quizDetails sample_draft) \<noteq> []
   \<and> \<not> js_le (timeLimit (quizDetails sample_draft)) (Finite 0)
   \<and> quizQuestions sample_draft \<noteq> []
   \<and> snd (handleSubmit (\<lambda>data caller. Inr ''doc1'') signed_in 1700000000000 sample_draft) =
       [(\<lparr>details =
            \<lparr>id_field = ''quiz_1700000000000'', title = ''Algebra'', grade = ''10'',
             timeLimit = Finite 10, targetAudience = ''all''\<rparr>,
          questions = [sample_question], type_tag = ''live''\<rparr>,
         ''u1'')]
   \<and> map (\<lambda>call. id_field (details (fst call)))
        (snd (handleSubmit (\<lambda>data caller. Inr ''doc2'') signed_in 1700000000001 sample_draft))
       = [''quiz_1700000000001'']
   \<and> ''quiz_1700000000001'' \<noteq> ''quiz_1700000000000''"
proof -
  have ready:
    "\<not> authLoading signed_in" "currentUser signed_in = Some sample_user"
    "title (quizDetails sample_draft) \<noteq> []" "grade (quizDetails sample_draft) \<noteq> []"
    "\<not> js_le (timeLimit (quizDetails sample_draft)) (Finite 0)"
    "quizQuestions sample_draft \<noteq> []"
    by (simp_all add: sample_draft_def sample_details_def signed_in_def)
  note first = handleSubmit_issues_one_write
      [OF ready, where saveLiveQuizToFirestore = "\<lambda>data caller. Inr ''doc1''"
         and now = 1700000000000]
  have second:
    "snd (handleSubmit (\<lambda>data caller. Inr ''doc2'') signed_in 1700000000001 sample_draft) =
       [(\<lparr>details = (quizDetails sample_draft)\<lparr>id_field := ''quiz_1700000000001''\<rparr>,
          questions = quizQuestions sample_draft, type_tag = ''live''\<rparr>,
         uid sample_user)]"
    by (simp add: handleSubmit_def handleSubmit_begin_ready [OF ready] newQuizId_def
          toString_sample_next)
  note later = first [THEN conjunct2, THEN conjunct2,
      THEN spec [where x = 1700000000001],
      THEN spec [where x = "\<lambda>data caller. Inr ''doc2''"],
      THEN spec [where x = signed_in], THEN spec [where x = sample_draft]]
  then have differ:
    "\<forall>call \<in> set (snd (handleSubmit (\<lambda>data caller. Inr ''doc2'') signed_in 1700000000001
                        sample_draft)).
       id_field (details (fst call)) \<noteq> ''quiz_'' @ toString 1700000000000"
    by simp
  from first have call1:
    "snd (handleSubmit (\<lambda>data caller. Inr ''doc1'') signed_in 1700000000000 sample_draft) =
       [(\<lparr>details = (quizDetails sample_draft)\<lparr>id_field := ''quiz_'' @ toString 1700000000000\<rparr>,
          questions = quizQuestions sample_draft, type_tag = ''live''\<rparr>,
         uid sample_user)]"
    by simp
  from differ have "''quiz_1700000000001'' \<noteq> ''quiz_1700000000000''"
    by (simp add: second toString_sample)
  with call1 second ready show ?thesis
    by (simp add: toString_sample) (simp add: sample_draft_def sample_details_def sample_user_def)
qed

section \<open>One submission at a time\<close>

lemma isSubmitting_handleFileChange: "isSubmitting (handleFileChange u s) = isSubmitting s"
  by (cases u) (auto simp add: reader_onload_def Let_def split: parse_result.splits option.splits)

lemma isSubmitting_handleDetailsChange:
  "isSubmitting (handleDetailsChange name val s) = isSubmitting s"
  by (simp add: handleDetailsChange_def Let_def)

lemma handleSubmit_begin_cases:
  "(\<exists>s'. handleSubmit_begin auth now s = Returned s' \<and> isSubmitting s' = isSubmitting s)
   \<or> (\<exists>p s'. handleSubmit_begin auth now s = Awaiting p s' \<and> isSubmitting s')"
  by (simp add: handleSubmit_begin_def Let_def split: option.splits)

lemma handleSubmit_resume_not_submitting: "\<not> isSubmitting (handleSubmit_resume p outcome s)"
  by (simp add: handleSubmit_resume_def split: sum.splits)

lemma dispatch_in_flight_ok:
  assumes "in_flight_ok f" and "dispatch e f = Some f'"
  shows "in_flight_ok f'"
proof (cases e)
  case (FileChange u)
  with assms show ?thesis
    by (auto simp add: in_flight_ok_def isSubmitting_handleFileChange)
next
  case (DetailsChange name val)
  with assms show ?thesis
    by (auto simp add: in_flight_ok_def isSubmitting_handleDetailsChange)
next
  case (AuthChange a)
  with assms show ?thesis
    by (auto simp add: in_flight_ok_def)
next
  case (Submit now)
  with assms have enabled: "\<not> submit_disabled (auth_context f) (component f)"
    by (auto split: if_splits)
  then have idle: "\<not> isSubmitting (component f)" "in_flight f = []"
    using assms(1) by (auto simp add: submit_disabled_def in_flight_ok_def)
  from handleSubmit_begin_cases [of "auth_context f" now "component f"] show ?thesis
    using assms(2) Submit enabled idle by (auto simp add: in_flight_ok_def)
next
  case (Settle i outcome)
  with assms have i: "i < length (in_flight f)"
    by (auto split: if_splits)
  with assms(1) have "length (in_flight f) = 1"
    by (auto simp add: in_flight_ok_def split: if_splits)
  with i assms(2) Settle show ?thesis
    by (auto simp add: in_flight_ok_def handleSubmit_resume_not_submitting)
qed

lemma run_in_flight_ok: "in_flight_ok f \<Longrightarrow> run es f = Some f' \<Longrightarrow> in_flight_ok f'"
proof (induction es arbitrary: f)
  case Nil
  then show ?case by simp
next
  case (Cons e es)
  then show ?case
    by (auto split: option.splits dest: dispatch_in_flight_ok)
qed

text \<open>
  A write that settles while other events have changed the form: a rejection
  leaves the details and the questions as they are at that time, a success
  resets them.
\<close>

lemma settle_failure_keeps_draft:
  assumes "dispatch (Settle i (Inl err)) f = Some f'"
  shows "quizDetails (component f') = quizDetails (component f)
         \<and> quizQuestions (component f') = quizQuestions (component f)"
  using assms by (auto simp add: handleSubmit_resume_def split: if_splits)

lemma settle_success_resets_draft:
  assumes "dispatch (Settle i (Inr quizId)) f = Some f'"
  shows "quizDetails (component f') = initialDetails \<and> quizQuestions (component f') = []"
  using assms by (auto simp add: handleSubmit_resume_def initialDetails_def split: if_splits)

lemma parseInt_10: "parseInt ''10'' = Finite 10"
  by (simp add: parseInt_def is_white_space_def is_white_space2_def radix_digit_def digit_of_def number_of_int_def
        round_to_double_def)

text \<open>
  Claim C9. In every state a mounted form can reach, at most one persistence
  write is in flight; one is in flight exactly while the submitting flag is set;
  and while one is in flight the submit button is disabled, so that no submit
  event is taken and no second write can start before the first has settled.
\<close>

theorem at_most_one_write_in_flight:
  assumes "run es (mount auth) = Some f"
  shows "length (in_flight f) \<le> 1
         \<and> (in_flight f \<noteq> [] \<longleftrightarrow> isSubmitting (component f))
         \<and> (in_flight f \<noteq> [] \<longrightarrow>
              submit_disabled (auth_context f) (component f) \<and> dispatch (Submit now) f = None)"
proof -
  have "in_flight_ok (mount auth)"
    by (simp add: in_flight_ok_def mount_def initialState_def)
  then have "in_flight_ok f"
    using assms by (rule run_in_flight_ok)
  then show ?thesis
    by (auto simp add: in_flight_ok_def submit_disabled_def split: if_splits)
qed

theorem at_most_one_write_in_flight_witness:
  "\<exists>f. run [FileChange (FileText (Parsed (JArray [sample_question]))),
            DetailsChange ''title'' ''Algebra'', DetailsChange ''grade'' ''10'',
            DetailsChange ''timeLimit'' ''10'', Submit 1700000000000]
           (mount signed_in) = Some f
       \<and> length (in_flight f) = 1 \<and> length (issued f) = 1
       \<and> isSubmitting (component f)
       \<and> dispatch (Submit 1700000000001) f = None"
proof -
  obtain f where f:
    "run [FileChange (FileText (Parsed (JArray [sample_question]))),
          DetailsChange ''title'' ''Algebra'', DetailsChange ''grade'' ''10'',
          DetailsChange ''timeLimit'' ''10'', Submit 1700000000000]
         (mount signed_in) = Some f"
    "length (in_flight f) = 1" "length (issued f) = 1"
    by (simp add: mount_def initialState_def initialDetails_def signed_in_def
          sample_question_def reader_onload_def is_question_def handleDetailsChange_def
          parseInt_10 submit_disabled_def handleSubmit_begin_def)
  from at_most_one_write_in_flight [OF f(1), of 1700000000001] f show ?thesis
    by auto
qed

section \<open>The time limit of persisted quizzes\<close>












text \<open>
  The check \<^verbatim>\<open>timeLimit <= 0\<close> of the handler and of the button does not by itself
  exclude \<^verbatim>\<open>NaN\<close>, which \<^verbatim>\<open>parseInt\<close> returns for an emptied field: it is the
  validation of the \<^verbatim>\<open>required\<close> field that keeps the submit event away. A submit
  event dispatched by a script, which skips validation, would hand \<^verbatim>\<open>NaN\<close> to
  the write.
\<close>

lemma emptied_timeLimit_not_submitted:
  "validated_run
     [FileChange (FileText (Parsed (JArray [sample_question]))),
      DetailsChange ''title'' ''Algebra'', DetailsChange ''grade'' ''10'',
      DetailsChange ''timeLimit'' '''', Submit 1700000000000]
     (mount signed_in) = None"
  by (simp add: mount_def initialState_def initialDetails_def signed_in_def
        sample_question_def reader_onload_def is_question_def handleDetailsChange_def
        parseInt_def checkValidity_def)

lemma handleSubmit_unvalidated_NaN:
  "timeLimit (quizDetails (handleDetailsChange ''timeLimit'' '''' sample_draft)) = NaN
   \<and> \<not> submit_disabled signed_in (handleDetailsChange ''timeLimit'' '''' sample_draft)
   \<and> map (\<lambda>call. timeLimit (details (fst call)))
        (snd (handleSubmit (\<lambda>data caller. Inr ''doc1'') signed_in 1700000000000
               (handleDetailsChange ''timeLimit'' '''' sample_draft))) = [NaN]"
  by (simp add: handleDetailsChange_def parseInt_def handleSubmit_def handleSubmit_begin_def
        submit_disabled_def sample_draft_def sample_details_def signed_in_def)

section \<open>The listing\<close>

lemma set_sort_insert: "set (sort_insert compareFn a bs) = insert a (set bs)"
  by (induction bs) auto

lemma mset_sort_insert: "mset (sort_insert compareFn a bs) = add_mset a (mset bs)"
  by (induction bs) auto

lemma mset_js_sort: "mset (js_sort compareFn xs) = mset xs"
  by (induction xs) (simp_all add: mset_sort_insert)

lemma sorted_sort_insert:
  "sorted_wrt (\<lambda>a b. createdAt b \<le> createdAt a) bs \<Longrightarrow>
   sorted_wrt (\<lambda>a b. createdAt b \<le> createdAt a) (sort_insert by_creation a bs)"
  by (induction bs) (auto simp add: set_sort_insert by_creation_def)

lemma sorted_js_sort: "sorted_wrt (\<lambda>a b. createdAt b \<le> createdAt a) (js_sort by_creation xs)"
  by (induction xs) (simp_all add: sorted_sort_insert)

lemma strictly_sorted_if_distinct:
  "sorted_wrt (\<lambda>a b. createdAt b \<le> createdAt a) xs \<Longrightarrow> distinct (map createdAt xs) \<Longrightarrow>
   sorted_wrt (\<lambda>a b. createdAt b < createdAt a) xs"
proof (induction xs)
  case Nil
  then show ?case by simp
next
  case (Cons a xs)
  have "createdAt b < createdAt a" if "b \<in> set xs" for b
  proof -
    from Cons.prems(1) that have "createdAt b \<le> createdAt a" by simp
    moreover from Cons.prems(2) have "createdAt a \<notin> createdAt ` set xs" by simp
    with that have "createdAt b \<noteq> createdAt a" by (metis imageI)
    ultimately show ?thesis by simp
  qed
  with Cons show ?case by simp
qed

lemma distinct_js_sort:
  "distinct (map createdAt (js_sort compareFn xs)) = distinct (map createdAt xs)"
proof -
  have "mset (map createdAt (js_sort compareFn xs)) = mset (map createdAt xs)"
    by (simp add: mset_js_sort)
  then show ?thesis
    by (metis distinct_count_atmost_1 set_mset_mset)
qed

text \<open>
  Claim C7. When the fetched quizzes have pairwise different creation times,
  the list the component stores holds exactly the fetched quizzes, each creation
  time strictly greater than all that follow it; unless nothing was fetched,
  the component renders the cards of that list in that order.
\<close>

theorem fetchQuizzes_newest_first:
  assumes "distinct (map createdAt fetched)"
  shows "sorted_wrt (\<lambda>a b. createdAt b < createdAt a) (quizzes (fetchQuizzes (Inr fetched) s))
         \<and> mset (quizzes (fetchQuizzes (Inr fetched) s)) = mset fetched
         \<and> (fetched \<noteq> [] \<longrightarrow>
              render (fetchQuizzes (Inr fetched) s) = Cards (quizzes (fetchQuizzes (Inr fetched) s)))"
proof -
  have stored: "quizzes (fetchQuizzes (Inr fetched) s) = js_sort by_creation fetched"
    by (simp add: fetchQuizzes_def Let_def)
  have nonempty: "js_sort by_creation fetched \<noteq> []" if "fetched \<noteq> []"
    using that mset_js_sort [of by_creation fetched] by (metis mset_zero_iff)
  have "sorted_wrt (\<lambda>a b. createdAt b < createdAt a) (js_sort by_creation fetched)"
    using assms by (intro strictly_sorted_if_distinct sorted_js_sort) (simp add: distinct_js_sort)
  moreover have "render (fetchQuizzes (Inr fetched) s) = Cards (js_sort by_creation fetched)"
    if "fetched \<noteq> []"
    using nonempty [OF that] by (simp add: fetchQuizzes_def Let_def render_def)
  ultimately show ?thesis
    by (simp add: stored mset_js_sort)
qed

theorem fetchQuizzes_newest_first_witness:
  "distinct (map createdAt [sample_quiz 100, sample_quiz 300, sample_quiz 200])
   \<and> render (fetchQuizzes (Inr [sample_quiz 100, sample_quiz 300, sample_quiz 200]) initialListing)
       = Cards [sample_quiz 300, sample_quiz 200, sample_quiz 100]
   \<and> sorted_wrt (\<lambda>a b. createdAt b < createdAt a) [sample_quiz 300, sample_quiz 200, sample_quiz 100]"
proof -
  have d: "distinct (map createdAt [sample_quiz 100, sample_quiz 300, sample_quiz 200])"
    by (simp add: sample_quiz_def)
  have q: "quizzes (fetchQuizzes (Inr [sample_quiz 100, sample_quiz 300, sample_quiz 200])
             initialListing) = [sample_quiz 300, sample_quiz 200, sample_quiz 100]"
    by (simp add: fetchQuizzes_def Let_def by_creation_def sample_quiz_def)
  from fetchQuizzes_newest_first [OF d, of initialListing] d show ?thesis
    by (simp add: q)
qed

end
